theory Spec2Isabelle
  imports Main "HOL-Library.Word"
begin

unbundle bit_operations_syntax

section \<open>PairingManager (src/src/services/api.ts, lines 580-1040)\<close>

subsection \<open>Data\<close>

text \<open>
  The record stored at \<^verbatim>\<open>pairing/{token}\<close>. The interface \<^verbatim>\<open>PairingToken\<close> declares
  \<^verbatim>\<open>desktopId\<close>, \<^verbatim>\<open>expiresAt\<close> and \<^verbatim>\<open>used\<close>; \<^verbatim>\<open>submitPairingToken\<close> adds \<^verbatim>\<open>mobileId\<close> and
  \<^verbatim>\<open>usedAt\<close>. The optional \<^verbatim>\<open>createdAt\<close> is only read by a clock-skew test whose single
  effect is a console warning, so it is left out.
\<close>

record PairingToken =
  desktopId :: string
  expiresAt :: int
  used :: bool
  mobileId :: "string option"
  usedAt :: "int option"

text \<open>
  The record stored at \<^verbatim>\<open>devices/{deviceId}\<close>. A field that is absent in the store is
  \<open>None\<close> (\<^verbatim>\<open>pairedWith\<close>) or \<open>False\<close> (\<^verbatim>\<open>paired\<close>); the constant fields \<^verbatim>\<open>type\<close> and
  \<^verbatim>\<open>version\<close> are not modelled.
\<close>

record DeviceRecord =
  paired :: bool
  pairedWith :: "string option"
  lastSeen :: int
  registeredAt :: int

text \<open>
  The interface \<^verbatim>\<open>DeviceConfig\<close>, kept as JSON under the key \<^verbatim>\<open>@jarvis_device_config\<close>
  of the local storage. An item that \<^verbatim>\<open>JSON.parse\<close> rejects, or that is the empty string, is
  \<open>Garbage\<close>; a parsed object without \<^verbatim>\<open>deviceId\<close> has the empty \<open>cfg_deviceId\<close>.
\<close>

record DeviceConfig =
  cfg_deviceId :: string
  cfg_pairedDesktopId :: "string option"
  lastUpdated :: int

datatype stored_item = Garbage | ConfigJson DeviceConfig

text \<open>
  What the outside world decides during one call: the clock, the draws of
  \<^verbatim>\<open>Math.random() * 16 | 0\<close> (each a number from 0 to 15, in the order they are taken), and
  for every kind of external operation whether it throws, with the message of the error
  thrown. Every error thrown is a JavaScript \<^verbatim>\<open>Error\<close> carrying a message. A call of a
  method is one step with one environment: calls follow one another and do not overlap, and
  the clock does not advance within a call.
\<close>

record env =
  now_ms :: int
  rnd :: "nat \<Rightarrow> 4 word"
  storage_get_err :: "string option"
  storage_set_err :: "string option"
  signin_err :: "string option"
  db_err :: "string option"
  get_err :: "string option"
  update_err :: "string option"
  set_err :: "string option"

text \<open>
  The state: the two fields of the \<^verbatim>\<open>PairingManager\<close> object (\<^verbatim>\<open>database\<close> only as set or
  unset), the item of the local storage, and the two store paths the manager uses.
\<close>

record world =
  pm_deviceId :: "string option"
  pm_database :: bool
  storage :: "stored_item option"
  pairing :: "string \<rightharpoonup> PairingToken"
  devices :: "string \<rightharpoonup> DeviceRecord"

record SubmitResult =
  success :: bool
  message :: "string option"

text \<open>JavaScript's \<^verbatim>\<open>!x\<close> on a value of type \<^verbatim>\<open>string | null\<close>.\<close>

definition falsy :: "string option \<Rightarrow> bool" where
  "falsy x = (case x of None \<Rightarrow> True | Some s \<Rightarrow> s = [])"

text \<open>\<^verbatim>\<open>Math.floor(Date.now() / 1000)\<close>\<close>

definition currentTime :: "env \<Rightarrow> int" where
  "currentTime e = now_ms e div 1000"

subsection \<open>Device identity\<close>

definition hex_digit :: "4 word \<Rightarrow> char" where
  "hex_digit v = ''0123456789abcdef'' ! unat v"

text \<open>
  \<^verbatim>\<open>template.replace(/[xy]/g, c => ...)\<close>: every \<^verbatim>\<open>x\<close> becomes the hexadecimal digit of
  the next draw \<open>r\<close>, every \<^verbatim>\<open>y\<close> that of \<^verbatim>\<open>r & 0x3 | 0x8\<close>, anything else is kept.
\<close>

fun replace_xy :: "(nat \<Rightarrow> 4 word) \<Rightarrow> nat \<Rightarrow> string \<Rightarrow> string" where
  "replace_xy r i [] = []"
| "replace_xy r i (c # cs) =
     (if c = CHR ''x'' then hex_digit (r i) # replace_xy r (Suc i) cs
      else if c = CHR ''y'' then hex_digit ((r i AND 3) OR 8) # replace_xy r (Suc i) cs
      else c # replace_xy r i cs)"

definition generateUUID :: "env \<Rightarrow> string" where
  "generateUUID e = replace_xy (rnd e) 0 ''xxxxxxxx-xxxx-4xxx-yxxx-xxxxxxxxxxxx''"

definition saveDeviceConfig ::
  "env \<Rightarrow> string \<Rightarrow> string option \<Rightarrow> world \<Rightarrow> (string + unit) \<times> world" where
  "saveDeviceConfig e d p w =
     (case storage_set_err e of
        Some err \<Rightarrow> (Inl err, w)
      | None \<Rightarrow>
          (Inr (),
           w\<lparr>storage := Some (ConfigJson
                \<lparr>cfg_deviceId = d, cfg_pairedDesktopId = p, lastUpdated = now_ms e\<rparr>)\<rparr>))"

text \<open>
  The \<^verbatim>\<open>try\<close> block of \<^verbatim>\<open>_getOrCreateDeviceId\<close>: the identifier found in the local storage, if
  any. A failing read and a failing parse are caught and only logged.
\<close>

definition loadDeviceId :: "env \<Rightarrow> world \<Rightarrow> string option" where
  "loadDeviceId e w =
     (case storage_get_err e of
        Some err \<Rightarrow> None
      | None \<Rightarrow>
          (case storage w of
             Some (ConfigJson c) \<Rightarrow> if cfg_deviceId c \<noteq> [] then Some (cfg_deviceId c) else None
           | _ \<Rightarrow> None))"

definition newDeviceId :: "env \<Rightarrow> string" where
  "newDeviceId e = ''mobile_'' @ take 16 (generateUUID e)"

definition getOrCreateDeviceId :: "env \<Rightarrow> world \<Rightarrow> (string + string) \<times> world" where
  "getOrCreateDeviceId e w =
     (case loadDeviceId e w of
        Some d \<Rightarrow> (Inr d, w)
      | None \<Rightarrow>
          (case saveDeviceConfig e (newDeviceId e) None w of
             (Inl err, w') \<Rightarrow> (Inl err, w')
           | (Inr u, w') \<Rightarrow> (Inr (newDeviceId e), w')))"

definition initializeDeviceId :: "env \<Rightarrow> world \<Rightarrow> (string + unit) \<times> world" where
  "initializeDeviceId e w =
     (case getOrCreateDeviceId e w of
        (Inl err, w1) \<Rightarrow> (Inl err, w1)
      | (Inr d, w1) \<Rightarrow>
          (let w2 = w1\<lparr>pm_deviceId := Some d\<rparr> in
           case signin_err e of
             Some err \<Rightarrow> (Inl err, w2)
           | None \<Rightarrow>
               (case db_err e of
                  Some err \<Rightarrow> (Inl err, w2)
                | None \<Rightarrow> (Inr (), w2\<lparr>pm_database := True\<rparr>))))"

text \<open>
  The opening lines shared by \<^verbatim>\<open>submitPairingToken\<close>, \<^verbatim>\<open>isPaired\<close> and
  \<^verbatim>\<open>getPairedDesktopId\<close>: \<^verbatim>\<open>if (!this.deviceId) await this._initializeDeviceId()\<close>.
\<close>

definition ensureDeviceId :: "env \<Rightarrow> world \<Rightarrow> (string + unit) \<times> world" where
  "ensureDeviceId e w = (if falsy (pm_deviceId w) then initializeDeviceId e w else (Inr (), w))"

text \<open>\<^verbatim>\<open>if (!this.database) this.database = getFirebaseDatabase()\<close>\<close>

definition ensureDatabase :: "env \<Rightarrow> world \<Rightarrow> (string + unit) \<times> world" where
  "ensureDatabase e w =
     (if pm_database w then (Inr (), w)
      else case db_err e of
             Some err \<Rightarrow> (Inl err, w)
           | None \<Rightarrow> (Inr (), w\<lparr>pm_database := True\<rparr>))"

subsection \<open>Token submission\<close>

definition failure :: "string \<Rightarrow> SubmitResult" where
  "failure m = \<lparr>success = False, message = Some m\<rparr>"

definition registerDevice :: "env \<Rightarrow> string \<Rightarrow> world \<Rightarrow> (string + unit) \<times> world" where
  "registerDevice e desktop w =
     (case pm_deviceId w of
        None \<Rightarrow> (Inl ''Device ID not initialized'', w)
      | Some d \<Rightarrow>
          if d = [] then (Inl ''Device ID not initialized'', w)
          else
            (case ensureDatabase e w of
               (Inl err, w1) \<Rightarrow> (Inl err, w1)
             | (Inr u, w1) \<Rightarrow>
                 (case set_err e of
                    Some err \<Rightarrow> (Inl err, w1)
                  | None \<Rightarrow>
                      (Inr (),
                       w1\<lparr>devices := (devices w1)(d \<mapsto>
                            \<lparr>paired = True, pairedWith = Some desktop,
                             lastSeen = currentTime e, registeredAt = currentTime e\<rparr>)\<rparr>))))"

text \<open>
  The body of the \<^verbatim>\<open>try\<close> block of \<^verbatim>\<open>submitPairingToken\<close>; \<open>Inl\<close> is an exception that
  reaches the \<^verbatim>\<open>catch\<close>. The repeated sign-in sits in a \<^verbatim>\<open>try\<close> of its own that swallows its
  error, so it leaves no trace here.
\<close>

definition submitBody :: "env \<Rightarrow> world \<Rightarrow> string \<Rightarrow> (string + SubmitResult) \<times> world" where
  "submitBody e w token =
     (case ensureDeviceId e w of
        (Inl err, w1) \<Rightarrow> (Inl err, w1)
      | (Inr u, w1) \<Rightarrow>
          (case pm_deviceId w1 of
             None \<Rightarrow> (Inr (failure ''Device ID not initialized''), w1)
           | Some d \<Rightarrow>
               if d = [] then (Inr (failure ''Device ID not initialized''), w1)
               else
                 (case ensureDatabase e w1 of
                    (Inl err, w2) \<Rightarrow> (Inl err, w2)
                  | (Inr u2, w2) \<Rightarrow>
                      (case get_err e of
                         Some err \<Rightarrow> (Inl err, w2)
                       | None \<Rightarrow>
                           (case pairing w2 token of
                              None \<Rightarrow>
                                (Inr (failure
                                   ''Invalid code: Token not found. Please regenerate the QR code.''),
                                 w2)
                            | Some td \<Rightarrow>
                                if currentTime e > expiresAt td then
                                  (Inr (failure
                                     ''Pairing code has expired. Please regenerate the QR code.''),
                                   w2)
                                else if used td then
                                  (Inr (failure ''This pairing code has already been used.''), w2)
                                else
                                  (case update_err e of
                                     Some err \<Rightarrow> (Inl err, w2)
                                   | None \<Rightarrow>
                                       (let w3 = w2\<lparr>pairing := (pairing w2)(token \<mapsto>
                                                  td\<lparr>used := True, mobileId := Some d,
                                                     usedAt := Some (currentTime e)\<rparr>)\<rparr>
                                        in case registerDevice e (desktopId td) w3 of
                                             (Inl err, w4) \<Rightarrow> (Inl err, w4)
                                           | (Inr u4, w4) \<Rightarrow>
                                               (case saveDeviceConfig e d (Some (desktopId td)) w4 of
                                                  (Inl err, w5) \<Rightarrow> (Inl err, w5)
                                                | (Inr u5, w5) \<Rightarrow>
                                                    (Inr \<lparr>success = True, message = None\<rparr>,
                                                     w5)))))))))"

definition submitPairingToken :: "env \<Rightarrow> world \<Rightarrow> string \<Rightarrow> SubmitResult \<times> world" where
  "submitPairingToken e w token =
     (case submitBody e w token of
        (Inl err, w') \<Rightarrow> (failure (''Pairing error: '' @ err), w')
      | (Inr r, w') \<Rightarrow> (r, w'))"

subsection \<open>Pairing status\<close>

definition isPairedBody :: "env \<Rightarrow> world \<Rightarrow> (string + bool) \<times> world" where
  "isPairedBody e w =
     (case ensureDeviceId e w of
        (Inl err, w1) \<Rightarrow> (Inl err, w1)
      | (Inr u, w1) \<Rightarrow>
          (case pm_deviceId w1 of
             None \<Rightarrow> (Inr False, w1)
           | Some d \<Rightarrow>
               if d = [] then (Inr False, w1)
               else
                 (case ensureDatabase e w1 of
                    (Inl err, w2) \<Rightarrow> (Inl err, w2)
                  | (Inr u2, w2) \<Rightarrow>
                      (case get_err e of
                         Some err \<Rightarrow> (Inl err, w2)
                       | None \<Rightarrow>
                           (case devices w2 d of
                              Some dd \<Rightarrow> (Inr (paired dd), w2)
                            | None \<Rightarrow> (Inr False, w2))))))"

definition isPaired :: "env \<Rightarrow> world \<Rightarrow> bool \<times> world" where
  "isPaired e w =
     (case isPairedBody e w of
        (Inl err, w') \<Rightarrow> (False, w')
      | (Inr b, w') \<Rightarrow> (b, w'))"

text \<open>\<^verbatim>\<open>deviceData.pairedWith || null\<close>\<close>

definition or_null :: "string option \<Rightarrow> string option" where
  "or_null x = (if falsy x then None else x)"

definition getPairedDesktopIdBody :: "env \<Rightarrow> world \<Rightarrow> (string + string option) \<times> world" where
  "getPairedDesktopIdBody e w =
     (case ensureDeviceId e w of
        (Inl err, w1) \<Rightarrow> (Inl err, w1)
      | (Inr u, w1) \<Rightarrow>
          (case pm_deviceId w1 of
             None \<Rightarrow> (Inr None, w1)
           | Some d \<Rightarrow>
               if d = [] then (Inr None, w1)
               else
                 (case ensureDatabase e w1 of
                    (Inl err, w2) \<Rightarrow> (Inl err, w2)
                  | (Inr u2, w2) \<Rightarrow>
                      (case get_err e of
                         Some err \<Rightarrow> (Inl err, w2)
                       | None \<Rightarrow>
                           (case devices w2 d of
                              Some dd \<Rightarrow>
                                (Inr (if paired dd then or_null (pairedWith dd) else None), w2)
                            | None \<Rightarrow> (Inr None, w2))))))"

definition getPairedDesktopId :: "env \<Rightarrow> world \<Rightarrow> string option \<times> world" where
  "getPairedDesktopId e w =
     (case getPairedDesktopIdBody e w of
        (Inl err, w') \<Rightarrow> (None, w')
      | (Inr r, w') \<Rightarrow> (r, w'))"

section \<open>FirebaseService (src/src/services/api.ts, lines 165-579)\<close>

subsection \<open>Connection state and the reconnect timer\<close>

record CommandMessage =
  cmd_text :: string
  cmd_timestamp :: int
  processed :: bool

text \<open>
  The fields of the service that the reconnect logic and \<^verbatim>\<open>sendCommand\<close> use, together
  with the two pieces of the outside world they act on: \<open>timers\<close>, the timeouts that are
  pending in the JavaScript runtime (handle and delay in milliseconds, in the order they were
  set), and \<open>commands\<close>, the content of \<^verbatim>\<open>messages/{id}/commands\<close> for every device id (key
  and message, in the order they were written). \<open>nextTimer\<close> is the handle the runtime hands
  out next; handles are positive numbers, hence truthy.
\<close>

record service =
  deviceId :: string
  pairedDesktopId :: "string option"
  isConnected :: bool
  reconnectAttempts :: nat
  reconnectDelay :: nat
  reconnectInterval :: "nat option"
  timers :: "(nat \<times> nat) list"
  nextTimer :: nat
  commands :: "string \<Rightarrow> (string \<times> CommandMessage) list"













subsection \<open>Sending a command\<close>

datatype send_error = NotPaired | NotConnected | StoreError string

definition error_message :: "send_error \<Rightarrow> string" where
  "error_message x =
     (case x of
        NotPaired \<Rightarrow> ''No paired desktop. Please pair with a desktop first.''
      | NotConnected \<Rightarrow> ''Not connected to Firebase. Please check your connection.''
      | StoreError m \<Rightarrow> m)"

text \<open>
  \<open>key\<close> is the key that \<^verbatim>\<open>push\<close> generates, \<open>now\<close> is \<^verbatim>\<open>Date.now()\<close>, \<open>err\<close> is the
  error with which the store rejects the \<^verbatim>\<open>set\<close>, if it does.
\<close>

definition sendCommand ::
  "string \<Rightarrow> int \<Rightarrow> string option \<Rightarrow> string \<Rightarrow> service \<Rightarrow> (send_error + string) \<times> service" where
  "sendCommand key now err commandText s =
     (case pairedDesktopId s of
        None \<Rightarrow> (Inl NotPaired, s)
      | Some d \<Rightarrow>
          if d = [] then (Inl NotPaired, s)
          else if \<not> isConnected s then (Inl NotConnected, s)
          else
            (case err of
               Some x \<Rightarrow> (Inl (StoreError x), s)
             | None \<Rightarrow>
                 (Inr key,
                  s\<lparr>commands := (commands s)(d := commands s d @
                       [(key, \<lparr>cmd_text = commandText, cmd_timestamp = now,
                               processed = False\<rparr>)])\<rparr>)))"

subsection \<open>The status listener\<close>

datatype status_type = Status | Progress | Error | Completion

record StatusMessage =
  status_type :: status_type
  status_text :: string
  progress :: "nat option"
  timestamp :: int

text \<open>
  The state that the callback of \<^verbatim>\<open>onValue\<close> in \<^verbatim>\<open>listenForStatus\<close> reads and writes:
  \<open>processedMessageIds\<close> is the JavaScript \<^verbatim>\<open>Set\<close>, kept in insertion order (the order in
  which \<^verbatim>\<open>Array.from\<close> lists it); \<open>delivered\<close> records the calls of \<^verbatim>\<open>callback\<close>, oldest
  first, each with the key of the message; \<open>removeCalls\<close> records the keys for which
  \<^verbatim>\<open>remove\<close> has been called on the store, oldest first.
\<close>

record listener =
  processedMessageIds :: "string list"
  delivered :: "(string \<times> StatusMessage) list"
  removeCalls :: "string list"

definition newListener :: listener where
  "newListener = \<lparr>processedMessageIds = [], delivered = [], removeCalls = []\<rparr>"

text \<open>The \<^verbatim>\<open>for\<close> loop over the sorted keys; the flag is \<^verbatim>\<open>hasNewMessages\<close>.\<close>

fun processKeys :: "(string \<times> StatusMessage) list \<Rightarrow> listener \<times> bool \<Rightarrow> listener \<times> bool" where
  "processKeys [] acc = acc"
| "processKeys (x # xs) (st, hasNew) =
     (if fst x \<notin> set (processedMessageIds st)
      then processKeys xs
             (st\<lparr>processedMessageIds := processedMessageIds st @ [fst x],
                 delivered := delivered st @ [x]\<rparr>, True)
      else processKeys xs (st, hasNew))"

text \<open>
  \<^verbatim>\<open>statusKeys.sort(...)\<close> sorts the array in place and returns it, so \<^verbatim>\<open>statusKeys\<close> and
  \<^verbatim>\<open>sortedKeys\<close> are one array, ordered by timestamp; the sort is stable. The timestamps are
  numbers, on which \<^verbatim>\<open>|| 0\<close> changes nothing.
\<close>

definition sortedKeys :: "(string \<times> StatusMessage) list \<Rightarrow> (string \<times> StatusMessage) list" where
  "sortedKeys statusData = sort_key (\<lambda>x. timestamp (snd x)) statusData"

text \<open>
  The callback of \<^verbatim>\<open>onValue\<close> on one snapshot; \<open>statusData\<close> is \<^verbatim>\<open>snapshot.val()\<close>, the keys
  with their messages in the order of \<^verbatim>\<open>Object.keys\<close>, the empty list for \<^verbatim>\<open>null\<close>. The keys
  of an object are distinct.
\<close>

definition onSnapshot :: "(string \<times> StatusMessage) list \<Rightarrow> listener \<Rightarrow> listener" where
  "onSnapshot statusData st =
     (if statusData = [] then st
      else
        (let ks = sortedKeys statusData;
             (st1, hasNew) = processKeys ks (st, False);
             st2 = (if hasNew \<and> length ks > 10
                    then st1\<lparr>removeCalls := removeCalls st1 @
                               map fst (take (length ks - 10) ks)\<rparr>
                    else st1);
             ids = processedMessageIds st2
         in if length ids > 50
            then st2\<lparr>processedMessageIds := drop (length ids - 50) ids\<rparr>
            else st2))"

text \<open>
  The continuation of \<^verbatim>\<open>await remove(oldStatusRef)\<close>, run once the store has confirmed the
  removal of \<open>key\<close>.
\<close>

definition removeResolved :: "string \<Rightarrow> listener \<Rightarrow> listener" where
  "removeResolved key st = st\<lparr>processedMessageIds := removeAll key (processedMessageIds st)\<rparr>"




section \<open>Notions used in the statements\<close>

text \<open>
  The environment lets a call reach the store: the local storage accepts a write, the
  anonymous sign-in succeeds, the database handle is there, and the store answers a read.
\<close>

definition store_available :: "env \<Rightarrow> bool" where
  "store_available e \<longleftrightarrow>
     storage_set_err e = None \<and> signin_err e = None \<and> db_err e = None \<and> get_err e = None"

text \<open>
  The opening lines of \<^verbatim>\<open>isPaired\<close> and \<^verbatim>\<open>getPairedDesktopId\<close> throw: the initialization
  of the identity fails, or the database handle cannot be had.
\<close>

definition initialization_throws :: "env \<Rightarrow> world \<Rightarrow> bool" where
  "initialization_throws e w \<longleftrightarrow>
     fst (ensureDeviceId e w) \<noteq> Inr () \<or>
     fst (ensureDatabase e (snd (ensureDeviceId e w))) \<noteq> Inr ()"

text \<open>The store holds no record for the device id that the call works with.\<close>

definition device_record_absent :: "env \<Rightarrow> world \<Rightarrow> bool" where
  "device_record_absent e w \<longleftrightarrow>
     (case pm_deviceId (snd (ensureDeviceId e w)) of
        None \<Rightarrow> True
      | Some d \<Rightarrow> devices w d = None)"













text \<open>The entries of a snapshot whose key is not in the set of processed ids, oldest first.\<close>

definition newMessages ::
  "(string \<times> StatusMessage) list \<Rightarrow> listener \<Rightarrow> (string \<times> StatusMessage) list" where
  "newMessages statusData st =
     filter (\<lambda>x. fst x \<notin> set (processedMessageIds st)) (sortedKeys statusData)"

text \<open>The limit of 50 on the set of processed ids.\<close>

definition capIds :: "string list \<Rightarrow> string list" where
  "capIds ids = (if length ids > 50 then drop (length ids - 50) ids else ids)"

text \<open>
  \<^verbatim>\<open>oldKeys\<close> of the source, \<^verbatim>\<open>statusKeys.slice(0, statusKeys.length - 10)\<close>, and the entries
  that the slice leaves out.
\<close>

definition oldKeys :: "(string \<times> StatusMessage) list \<Rightarrow> string list" where
  "oldKeys statusData = map fst (take (length statusData - 10) (sortedKeys statusData))"

definition keptEntries ::
  "(string \<times> StatusMessage) list \<Rightarrow> (string \<times> StatusMessage) list" where
  "keptEntries statusData = drop (length statusData - 10) (sortedKeys statusData)"

text \<open>The store confirms the removal of each key of a list.\<close>

definition removalsResolved :: "string list \<Rightarrow> listener \<Rightarrow> listener" where
  "removalsResolved ks st = foldl (\<lambda>s k. removeResolved k s) st ks"



text \<open>
  The \<^verbatim>\<open>try\<close> block of \<^verbatim>\<open>submitPairingToken\<close> runs to one of its \<^verbatim>\<open>return\<close> statements:
  no operation of the call throws.
\<close>

definition completes :: "env \<Rightarrow> world \<Rightarrow> string \<Rightarrow> bool" where
  "completes e w token \<longleftrightarrow> \<not> isl (fst (submitBody e w token))"

subsection \<open>Concrete inputs\<close>

text \<open>A quiet environment: nothing throws, the clock reads 1200 s, every draw is 0.\<close>

definition quiet :: env where
  "quiet = \<lparr>now_ms = 1200000, rnd = (\<lambda>i. 0), storage_get_err = None, storage_set_err = None,
            signin_err = None, db_err = None, get_err = None, update_err = None, set_err = None\<rparr>"

definition token_abc :: PairingToken where
  "token_abc = \<lparr>desktopId = ''desktop_1'', expiresAt = 1300, used = False,
                mobileId = None, usedAt = None\<rparr>"

text \<open>A freshly installed application and a store that holds five pairing tokens.\<close>

definition world_abc :: world where
  "world_abc = \<lparr>pm_deviceId = None, pm_database = False, storage = None,
     pairing = [''pair_abc123'' \<mapsto> token_abc,
                ''pair_blank'' \<mapsto> token_abc\<lparr>desktopId := []\<rparr>,
                ''pair_stale'' \<mapsto> token_abc\<lparr>expiresAt := 1100\<rparr>,
                ''pair_spent'' \<mapsto> token_abc\<lparr>used := True, mobileId := Some ''mobile_1''\<rparr>,
                ''pair_spent_stale'' \<mapsto> token_abc\<lparr>expiresAt := 1100, used := True\<rparr>],
     devices = Map.empty\<rparr>"

text \<open>The store rejects the write that marks a token used.\<close>

definition denied :: env where
  "denied = quiet\<lparr>update_err := Some ''PERMISSION_DENIED: Permission denied''\<rparr>"

text \<open>The store does not answer a read.\<close>

definition unreadable :: env where
  "unreadable = quiet\<lparr>get_err := Some ''Error: Client is offline.''\<rparr>"

text \<open>The store rejects the write of the device record.\<close>

definition unwritable :: env where
  "unwritable = quiet\<lparr>set_err := Some ''PERMISSION_DENIED: Permission denied''\<rparr>"

text \<open>Firebase is not configured, so there is no database handle.\<close>

definition unconfigured :: env where
  "unconfigured = quiet\<lparr>db_err := Some ''Firebase Database URL is required''\<rparr>"

text \<open>A service as the constructor makes it for the device \<^verbatim>\<open>mobile_1\<close>, not yet paired.\<close>

definition phone :: service where
  "phone = \<lparr>deviceId = ''mobile_1'', pairedDesktopId = None, isConnected = False,
            reconnectAttempts = 0, reconnectDelay = 1000, reconnectInterval = None,
            timers = [], nextTimer = 1, commands = (\<lambda>i. [])\<rparr>"

text \<open>
  Status messages with a given timestamp, and an inbox of \<open>n\<close> of them under the keys
  \<^verbatim>\<open>-00\<close>, \<^verbatim>\<open>-01\<close>, ... with the timestamps 0, 1, ...
\<close>

definition status_at :: "int \<Rightarrow> StatusMessage" where
  "status_at t =
     \<lparr>status_type = Status, status_text = ''working'', progress = None, timestamp = t\<rparr>"

definition key_of :: "nat \<Rightarrow> string" where
  "key_of i = [CHR ''-'', char_of (48 + i div 10), char_of (48 + i mod 10)]"

definition inbox :: "nat \<Rightarrow> (string \<times> StatusMessage) list" where
  "inbox n = map (\<lambda>i. (key_of i, status_at (int i))) [0..<n]"




section \<open>Properties of the PairingManager\<close>

lemmas pm_defs = ensureDeviceId_def initializeDeviceId_def getOrCreateDeviceId_def
  saveDeviceConfig_def ensureDatabase_def loadDeviceId_def Let_def

lemmas pm_splits = option.splits stored_item.splits prod.splits sum.splits

lemma newDeviceId_nonempty: "newDeviceId e \<noteq> []"
  by (simp add: newDeviceId_def)

lemma ensureDeviceId_pairing: "pairing (snd (ensureDeviceId e w)) = pairing w"
  by (simp add: pm_defs split: pm_splits)

lemma ensureDeviceId_devices: "devices (snd (ensureDeviceId e w)) = devices w"
  by (simp add: pm_defs split: pm_splits)

lemma ensureDatabase_pairing: "pairing (snd (ensureDatabase e w)) = pairing w"
  by (simp add: pm_defs split: pm_splits)

lemma ensureDatabase_devices: "devices (snd (ensureDatabase e w)) = devices w"
  by (simp add: pm_defs split: pm_splits)

lemma ensureDatabase_deviceId: "pm_deviceId (snd (ensureDatabase e w)) = pm_deviceId w"
  by (simp add: pm_defs split: pm_splits)

lemma ensureDeviceId_ok:
  assumes "storage_set_err e = None" "signin_err e = None" "db_err e = None"
  shows "\<exists>w1 d. ensureDeviceId e w = (Inr (), w1) \<and> pm_deviceId w1 = Some d \<and> d \<noteq> []
      \<and> pairing w1 = pairing w \<and> devices w1 = devices w"
  using assms
  by (auto simp add: pm_defs falsy_def newDeviceId_nonempty split: pm_splits)

lemma ensureDatabase_ok:
  assumes "db_err e = None"
  shows "ensureDatabase e w = (Inr (), w\<lparr>pm_database := True\<rparr>)"
  using assms by (cases "pm_database w") (auto simp: ensureDatabase_def)

text \<open>
  How \<open>submitBody\<close> goes on once the identity and the database handle are there and the
  read is answered.
\<close>

lemma submitBody_reaches_store:
  assumes "store_available e"
  shows "\<exists>w2 d. pm_deviceId w2 = Some d \<and> d \<noteq> [] \<and> pm_database w2 \<and> pairing w2 = pairing w
     \<and> devices w2 = devices w \<and>
     submitBody e w t =
       (case pairing w2 t of
          None \<Rightarrow>
            (Inr (failure ''Invalid code: Token not found. Please regenerate the QR code.''), w2)
        | Some td \<Rightarrow>
            if currentTime e > expiresAt td then
              (Inr (failure ''Pairing code has expired. Please regenerate the QR code.''), w2)
            else if used td then
              (Inr (failure ''This pairing code has already been used.''), w2)
            else
              (case update_err e of
                 Some err \<Rightarrow> (Inl err, w2)
               | None \<Rightarrow>
                   (let w3 = w2\<lparr>pairing := (pairing w2)(t \<mapsto>
                              td\<lparr>used := True, mobileId := Some d,
                                 usedAt := Some (currentTime e)\<rparr>)\<rparr>
                    in case registerDevice e (desktopId td) w3 of
                         (Inl err, w4) \<Rightarrow> (Inl err, w4)
                       | (Inr u4, w4) \<Rightarrow>
                           (case saveDeviceConfig e d (Some (desktopId td)) w4 of
                              (Inl err, w5) \<Rightarrow> (Inl err, w5)
                            | (Inr u5, w5) \<Rightarrow>
                                (Inr \<lparr>success = True, message = None\<rparr>, w5)))))"
proof -
  from assms obtain w1 d where 1: "ensureDeviceId e w = (Inr (), w1)" "pm_deviceId w1 = Some d"
    "d \<noteq> []" "pairing w1 = pairing w" "devices w1 = devices w"
    using ensureDeviceId_ok[of e w] by (auto simp: store_available_def)
  have 2: "ensureDatabase e w1 = (Inr (), w1\<lparr>pm_database := True\<rparr>)"
    using assms by (simp add: ensureDatabase_ok store_available_def)
  have g: "get_err e = None" using assms by (simp add: store_available_def)
  show ?thesis
    apply (rule exI[of _ "w1\<lparr>pm_database := True\<rparr>"], rule exI[of _ d])
    using 1 2 g by (simp add: submitBody_def)
qed

lemma registerDevice_ok:
  assumes "pm_deviceId w = Some d" "d \<noteq> []" "pm_database w" "set_err e = None"
  shows "registerDevice e desk w = (Inr (), w\<lparr>devices := (devices w)(d \<mapsto>
            \<lparr>paired = True, pairedWith = Some desk,
             lastSeen = currentTime e, registeredAt = currentTime e\<rparr>)\<rparr>)"
  using assms by (simp add: registerDevice_def ensureDatabase_def)

lemma registerDevice_set_err:
  assumes "set_err e = Some x"
  shows "\<exists>m. fst (registerDevice e desk w) = Inl m"
  using assms
  by (simp add: registerDevice_def split: sum.splits option.splits prod.splits)

lemma getPairedDesktopId_ready:
  assumes "pm_deviceId w = Some d" "d \<noteq> []" "pm_database w" "get_err e = None"
  shows "fst (getPairedDesktopId e w) =
     (case devices w d of None \<Rightarrow> None
      | Some dd \<Rightarrow> if paired dd then or_null (pairedWith dd) else None)"
  using assms
  by (simp add: getPairedDesktopId_def getPairedDesktopIdBody_def ensureDeviceId_def falsy_def
      ensureDatabase_def split: option.splits)

text \<open>A result is either the success or a failure that carries a message.\<close>

lemma submit_total:
  "success (fst (submitPairingToken e w t)) \<and> message (fst (submitPairingToken e w t)) = None \<or>
   \<not> success (fst (submitPairingToken e w t)) \<and> message (fst (submitPairingToken e w t)) \<noteq> None"
  by (simp add: submitPairingToken_def submitBody_def failure_def Let_def
      split: sum.splits option.splits prod.splits)

lemma get_err_no_success:
  assumes "get_err e = Some x"
  shows "\<not> success (fst (submitPairingToken e w t))"
  using assms
  by (simp add: submitPairingToken_def submitBody_def failure_def Let_def
      split: sum.splits option.splits prod.splits)

lemma update_err_no_success:
  assumes "update_err e = Some x"
  shows "\<not> success (fst (submitPairingToken e w t))"
  using assms
  by (simp add: submitPairingToken_def submitBody_def failure_def Let_def
      split: sum.splits option.splits prod.splits)

lemma set_err_no_success:
  assumes "set_err e = Some x"
  shows "\<not> success (fst (submitPairingToken e w t))"
  using registerDevice_set_err[OF assms]
  apply (simp add: submitPairingToken_def submitBody_def failure_def Let_def
      split: sum.splits option.splits prod.splits)
  by (metis fst_conv sum.distinct(1))

lemma used_pairing_unchanged:
  assumes "pairing w t = Some td" "used td"
  shows "pairing (snd (submitPairingToken e w t)) = pairing w \<and>
         \<not> success (fst (submitPairingToken e w t))"
proof -
  obtain r1 w1 where 1: "ensureDeviceId e w = (r1, w1)" by (cases "ensureDeviceId e w")
  then have p1: "pairing w1 = pairing w" using ensureDeviceId_pairing[of e w] by simp
  obtain r2 w2 where 2: "ensureDatabase e w1 = (r2, w2)" by (cases "ensureDatabase e w1")
  then have p2: "pairing w2 = pairing w" using ensureDatabase_pairing[of e w1] p1 by simp
  show ?thesis using 1 2 p1 p2 assms
    by (simp add: submitPairingToken_def submitBody_def failure_def
        split: sum.splits option.splits)
qed

text \<open>The result of a call that reads an unexpired, unused record.\<close>

lemma submit_fresh_token:
  assumes "store_available e" "pairing w t = Some td" "\<not> used td"
    "currentTime e \<le> expiresAt td"
  shows "\<exists>w2 d. pm_deviceId w2 = Some d \<and> d \<noteq> [] \<and> pm_database w2 \<and> pairing w2 = pairing w
     \<and> devices w2 = devices w \<and>
     submitBody e w t =
       (case update_err e of
          Some err \<Rightarrow> (Inl err, w2)
        | None \<Rightarrow>
            (let w3 = w2\<lparr>pairing := (pairing w2)(t \<mapsto>
                       td\<lparr>used := True, mobileId := Some d,
                          usedAt := Some (currentTime e)\<rparr>)\<rparr>
             in case registerDevice e (desktopId td) w3 of
                  (Inl err, w4) \<Rightarrow> (Inl err, w4)
                | (Inr u4, w4) \<Rightarrow>
                    (case saveDeviceConfig e d (Some (desktopId td)) w4 of
                       (Inl err, w5) \<Rightarrow> (Inl err, w5)
                     | (Inr u5, w5) \<Rightarrow>
                         (Inr \<lparr>success = True, message = None\<rparr>, w5))))"
proof -
  from submitBody_reaches_store[OF assms(1), of w t] obtain w2 d where
    w2: "pm_deviceId w2 = Some d \<and> d \<noteq> [] \<and> pm_database w2 \<and> pairing w2 = pairing w
     \<and> devices w2 = devices w" and
    body: "submitBody e w t =
       (case pairing w2 t of
          None \<Rightarrow>
            (Inr (failure ''Invalid code: Token not found. Please regenerate the QR code.''), w2)
        | Some td \<Rightarrow>
            if currentTime e > expiresAt td then
              (Inr (failure ''Pairing code has expired. Please regenerate the QR code.''), w2)
            else if used td then
              (Inr (failure ''This pairing code has already been used.''), w2)
            else
              (case update_err e of
                 Some err \<Rightarrow> (Inl err, w2)
               | None \<Rightarrow>
                   (let w3 = w2\<lparr>pairing := (pairing w2)(t \<mapsto>
                              td\<lparr>used := True, mobileId := Some d,
                                 usedAt := Some (currentTime e)\<rparr>)\<rparr>
                    in case registerDevice e (desktopId td) w3 of
                         (Inl err, w4) \<Rightarrow> (Inl err, w4)
                       | (Inr u4, w4) \<Rightarrow>
                           (case saveDeviceConfig e d (Some (desktopId td)) w4 of
                              (Inl err, w5) \<Rightarrow> (Inl err, w5)
                            | (Inr u5, w5) \<Rightarrow>
                                (Inr \<lparr>success = True, message = None\<rparr>, w5)))))"
    by blast
  show ?thesis
    apply (rule exI[of _ w2], rule exI[of _ d])
    using w2 body assms(2-4) by simp
qed

lemma ensureDeviceId_Inr:
  assumes "ensureDeviceId e w = (Inr u, w1)"
  shows "\<exists>d. pm_deviceId w1 = Some d \<and> d \<noteq> [] \<and> pairing w1 = pairing w \<and>
             devices w1 = devices w"
  using assms
  by (auto simp add: pm_defs falsy_def newDeviceId_nonempty split: pm_splits if_splits)

lemma ensureDatabase_Inr:
  assumes "ensureDatabase e w = (Inr u, w2)"
  shows "w2 = w\<lparr>pm_database := True\<rparr>"
  using assms by (cases "pm_database w") (auto simp: ensureDatabase_def split: option.splits)

lemma registerDevice_Inr:
  assumes "registerDevice e desk w = (Inr u, w')" "pm_deviceId w = Some d" "pm_database w"
  shows "w' = w\<lparr>devices := (devices w)(d \<mapsto>
            \<lparr>paired = True, pairedWith = Some desk,
             lastSeen = currentTime e, registeredAt = currentTime e\<rparr>)\<rparr>"
  using assms
  by (auto simp add: registerDevice_def ensureDatabase_def split: if_splits option.splits)

lemma saveDeviceConfig_Inr:
  assumes "saveDeviceConfig e d p w = (Inr u, w')"
  shows "w' = w\<lparr>storage := Some (ConfigJson
                \<lparr>cfg_deviceId = d, cfg_pairedDesktopId = p, lastUpdated = now_ms e\<rparr>)\<rparr>"
  using assms by (auto simp: saveDeviceConfig_def split: option.splits)

text \<open>
  How \<open>submitBody\<close> goes on when nothing throws: the identity and the database handle are
  there and the read is answered.
\<close>

lemma submitBody_completes:
  assumes "completes e w t"
  shows "\<exists>w2 d. pm_deviceId w2 = Some d \<and> d \<noteq> [] \<and> pm_database w2 \<and> pairing w2 = pairing w
     \<and> devices w2 = devices w \<and>
     submitBody e w t =
       (case pairing w2 t of
          None \<Rightarrow>
            (Inr (failure ''Invalid code: Token not found. Please regenerate the QR code.''), w2)
        | Some td \<Rightarrow>
            if currentTime e > expiresAt td then
              (Inr (failure ''Pairing code has expired. Please regenerate the QR code.''), w2)
            else if used td then
              (Inr (failure ''This pairing code has already been used.''), w2)
            else
              (case update_err e of
                 Some err \<Rightarrow> (Inl err, w2)
               | None \<Rightarrow>
                   (let w3 = w2\<lparr>pairing := (pairing w2)(t \<mapsto>
                              td\<lparr>used := True, mobileId := Some d,
                                 usedAt := Some (currentTime e)\<rparr>)\<rparr>
                    in case registerDevice e (desktopId td) w3 of
                         (Inl err, w4) \<Rightarrow> (Inl err, w4)
                       | (Inr u4, w4) \<Rightarrow>
                           (case saveDeviceConfig e d (Some (desktopId td)) w4 of
                              (Inl err, w5) \<Rightarrow> (Inl err, w5)
                            | (Inr u5, w5) \<Rightarrow>
                                (Inr \<lparr>success = True, message = None\<rparr>, w5)))))"
proof -
  obtain r1 w1 where 1: "ensureDeviceId e w = (r1, w1)" by (cases "ensureDeviceId e w")
  have r1: "r1 = Inr ()"
  proof (cases r1)
    case (Inl x)
    then show ?thesis using assms 1 by (simp add: completes_def submitBody_def)
  next
    case (Inr u)
    then show ?thesis by simp
  qed
  from ensureDeviceId_Inr[OF 1[unfolded r1]] obtain d where
    d: "pm_deviceId w1 = Some d" "d \<noteq> []" "pairing w1 = pairing w" "devices w1 = devices w"
    by blast
  obtain r2 w2 where 2: "ensureDatabase e w1 = (r2, w2)" by (cases "ensureDatabase e w1")
  have r2: "r2 = Inr ()"
  proof (cases r2)
    case (Inl x)
    then show ?thesis using assms 1 r1 d 2 by (simp add: completes_def submitBody_def)
  next
    case (Inr u)
    then show ?thesis by simp
  qed
  have w2: "w2 = w1\<lparr>pm_database := True\<rparr>" using ensureDatabase_Inr[OF 2[unfolded r2]] .
  have g: "get_err e = None"
  proof (cases "get_err e")
    case None
    then show ?thesis .
  next
    case (Some x)
    then show ?thesis using assms 1 r1 d 2 r2 by (simp add: completes_def submitBody_def)
  qed
  have db: "ensureDatabase e w1 = (Inr (), w1\<lparr>pm_database := True\<rparr>)"
    using 2 r2 w2 by simp
  have dev: "ensureDeviceId e w = (Inr (), w1)" using 1 r1 by simp
  show ?thesis
    apply (rule exI[of _ "w1\<lparr>pm_database := True\<rparr>"], rule exI[of _ d])
    using dev d db g by (simp add: submitBody_def)
qed


lemma newDeviceId_eq:
  "newDeviceId e = ''mobile_'' @
     [hex_digit (rnd e 0), hex_digit (rnd e 1), hex_digit (rnd e 2), hex_digit (rnd e 3),
      hex_digit (rnd e 4), hex_digit (rnd e 5), hex_digit (rnd e 6), hex_digit (rnd e 7),
      CHR ''-'',
      hex_digit (rnd e 8), hex_digit (rnd e 9), hex_digit (rnd e 10), hex_digit (rnd e 11),
      CHR ''-'', CHR ''4'', hex_digit (rnd e 12)]"
  by (simp add: newDeviceId_def generateUUID_def eval_nat_numeral)

text \<open>Evaluation of the concrete inputs.\<close>

lemmas concrete_defs = quiet_def denied_def unreadable_def unwritable_def unconfigured_def
  world_abc_def token_abc_def

lemmas eval_defs = submitPairingToken_def submitBody_def registerDevice_def failure_def
  completes_def
  isPaired_def isPairedBody_def getPairedDesktopId_def getPairedDesktopIdBody_def or_null_def
  falsy_def currentTime_def newDeviceId_eq hex_digit_def pm_defs

section \<open>The claims about pairing\<close>

text \<open>
  Claim C1, as amended. Let the record of token \<open>t\<close> exist in the store with \<^verbatim>\<open>used = false\<close>,
  an expiry that has not passed and a \<^verbatim>\<open>desktopId\<close> that is not the empty string. Then a first
  \<^verbatim>\<open>submitPairingToken(t)\<close> in which no operation throws returns \<^verbatim>\<open>{success: true}\<close>, the
  token record is afterwards the old one with \<^verbatim>\<open>used = true\<close>, \<^verbatim>\<open>mobileId\<close> the local device
  id and \<^verbatim>\<open>usedAt\<close> the current time, and a following \<^verbatim>\<open>getPairedDesktopId()\<close> whose read is
  answered returns the \<^verbatim>\<open>desktopId\<close> of the token. Nothing is assumed about the state of the
  manager before the call.
\<close>

theorem first_submit_pairs:
  assumes "pairing w t = Some td" and "\<not> used td" and "currentTime e \<le> expiresAt td"
    and "desktopId td \<noteq> []"
    and "completes e w t"
    and "get_err e' = None"
  shows "\<exists>d w'. submitPairingToken e w t = (\<lparr>success = True, message = None\<rparr>, w') \<and>
           pm_deviceId w' = Some d \<and>
           pairing w' t = Some (td\<lparr>used := True, mobileId := Some d,
                                   usedAt := Some (currentTime e)\<rparr>) \<and>
           fst (getPairedDesktopId e' w') = Some (desktopId td)"
proof -
  from submitBody_completes[OF assms(5)] obtain w2 d where
    w2: "pm_deviceId w2 = Some d" "d \<noteq> []" "pm_database w2" "pairing w2 = pairing w" and
    body0: "submitBody e w t =
      (case update_err e of
         Some err \<Rightarrow> (Inl err, w2)
       | None \<Rightarrow>
           (let w3 = w2\<lparr>pairing := (pairing w2)(t \<mapsto>
                      td\<lparr>used := True, mobileId := Some d, usedAt := Some (currentTime e)\<rparr>)\<rparr>
            in case registerDevice e (desktopId td) w3 of
                 (Inl err, w4) \<Rightarrow> (Inl err, w4)
               | (Inr u4, w4) \<Rightarrow>
                   (case saveDeviceConfig e d (Some (desktopId td)) w4 of
                      (Inl err, w5) \<Rightarrow> (Inl err, w5)
                    | (Inr u5, w5) \<Rightarrow> (Inr \<lparr>success = True, message = None\<rparr>, w5))))"
    using assms(1-3) by auto
  define w3 where "w3 = w2\<lparr>pairing := (pairing w2)(t \<mapsto>
                     td\<lparr>used := True, mobileId := Some d, usedAt := Some (currentTime e)\<rparr>)\<rparr>"
  have u: "update_err e = None"
    using assms(5) body0 by (cases "update_err e") (simp_all add: completes_def)
  have body: "submitBody e w t =
      (case registerDevice e (desktopId td) w3 of
         (Inl err, w4) \<Rightarrow> (Inl err, w4)
       | (Inr u4, w4) \<Rightarrow>
           (case saveDeviceConfig e d (Some (desktopId td)) w4 of
              (Inl err, w5) \<Rightarrow> (Inl err, w5)
            | (Inr u5, w5) \<Rightarrow> (Inr \<lparr>success = True, message = None\<rparr>, w5)))"
    using body0 u by (simp add: w3_def)
  obtain r4 w4 where r: "registerDevice e (desktopId td) w3 = (r4, w4)"
    by (cases "registerDevice e (desktopId td) w3")
  have r4: "r4 = Inr ()"
    using assms(5) body r by (cases r4) (simp_all add: completes_def)
  obtain r5 w5 where s: "saveDeviceConfig e d (Some (desktopId td)) w4 = (r5, w5)"
    by (cases "saveDeviceConfig e d (Some (desktopId td)) w4")
  have r5: "r5 = Inr ()"
    using assms(5) body r r4 s by (cases r5) (simp_all add: completes_def)
  have w4: "w4 = w3\<lparr>devices := (devices w3)(d \<mapsto>
            \<lparr>paired = True, pairedWith = Some (desktopId td),
             lastSeen = currentTime e, registeredAt = currentTime e\<rparr>)\<rparr>"
    using registerDevice_Inr[OF r[unfolded r4], of d] w2 by (simp add: w3_def)
  have w5: "w5 = w4\<lparr>storage := Some (ConfigJson
                \<lparr>cfg_deviceId = d, cfg_pairedDesktopId = Some (desktopId td),
                 lastUpdated = now_ms e\<rparr>)\<rparr>"
    using saveDeviceConfig_Inr[OF s[unfolded r5]] .
  have res: "submitPairingToken e w t = (\<lparr>success = True, message = None\<rparr>, w5)"
    using body r r4 s r5 by (simp add: submitPairingToken_def)
  have p5: "pm_deviceId w5 = Some d" "pm_database w5"
    "devices w5 d = Some \<lparr>paired = True, pairedWith = Some (desktopId td),
             lastSeen = currentTime e, registeredAt = currentTime e\<rparr>"
    "pairing w5 t = Some (td\<lparr>used := True, mobileId := Some d,
                                   usedAt := Some (currentTime e)\<rparr>)"
    using w2 by (simp_all add: w5 w4 w3_def)
  have "fst (getPairedDesktopId e' w5) = Some (desktopId td)"
    using getPairedDesktopId_ready[OF p5(1) \<open>d \<noteq> []\<close> p5(2) assms(6)] p5(3) assms(4)
    by (simp add: or_null_def falsy_def)
  with res p5 show ?thesis by blast
qed

theorem first_submit_pairs_witness:
  "pairing world_abc ''pair_abc123'' = Some token_abc \<and> \<not> used token_abc \<and>
   currentTime quiet \<le> expiresAt token_abc \<and> desktopId token_abc \<noteq> [] \<and>
   completes quiet world_abc ''pair_abc123'' \<and> get_err quiet = None \<and>
   (\<exists>d w'. submitPairingToken quiet world_abc ''pair_abc123'' =
              (\<lparr>success = True, message = None\<rparr>, w') \<and>
            pm_deviceId w' = Some d \<and>
            pairing w' ''pair_abc123'' =
              Some (token_abc\<lparr>used := True, mobileId := Some d,
                              usedAt := Some (currentTime quiet)\<rparr>) \<and>
            fst (getPairedDesktopId quiet w') = Some (desktopId token_abc))"
proof -
  have h: "pairing world_abc ''pair_abc123'' = Some token_abc" "\<not> used token_abc"
    "currentTime quiet \<le> expiresAt token_abc" "desktopId token_abc \<noteq> []"
    "completes quiet world_abc ''pair_abc123''" "get_err quiet = None"
    by (simp_all add: concrete_defs eval_defs)
  from first_submit_pairs[OF h] h show ?thesis by blast
qed

text \<open>
  The claim as it is written fails for a token whose \<^verbatim>\<open>desktopId\<close> is the empty string: the
  submission succeeds with nothing thrown, and \<^verbatim>\<open>getPairedDesktopId()\<close> then returns \<^verbatim>\<open>null\<close>,
  since it returns \<^verbatim>\<open>deviceData.pairedWith || null\<close>.
\<close>

theorem first_submit_blank_desktop_counterexample:
  "pairing world_abc ''pair_blank'' = Some (token_abc\<lparr>desktopId := []\<rparr>) \<and>
   \<not> used (token_abc\<lparr>desktopId := []\<rparr>) \<and>
   currentTime quiet \<le> expiresAt (token_abc\<lparr>desktopId := []\<rparr>) \<and>
   completes quiet world_abc ''pair_blank'' \<and>
   fst (submitPairingToken quiet world_abc ''pair_blank'') =
     \<lparr>success = True, message = None\<rparr> \<and>
   fst (getPairedDesktopId quiet (snd (submitPairingToken quiet world_abc ''pair_blank''))) = None \<and>
   fst (getPairedDesktopId quiet (snd (submitPairingToken quiet world_abc ''pair_blank''))) \<noteq>
     Some (desktopId (token_abc\<lparr>desktopId := []\<rparr>))"
  by (simp add: concrete_defs eval_defs)

text \<open>
  Claim C2, as amended. Let the record of token \<open>t\<close> have \<^verbatim>\<open>used = true\<close>. Then every call
  \<^verbatim>\<open>submitPairingToken(t)\<close>, whatever the state and the identity of the calling manager and
  whatever the environment, returns \<^verbatim>\<open>success: false\<close> and leaves all token records as they
  are, so a token is consumed at most once. The message is the one of the used code when no
  operation of the call throws and the record has not expired; the expiry is tested first.
\<close>

theorem used_token_rejected:
  assumes "pairing w t = Some td" and "used td"
  shows "\<not> success (fst (submitPairingToken e w t)) \<and>
         pairing (snd (submitPairingToken e w t)) = pairing w \<and>
         (completes e w t \<and> currentTime e \<le> expiresAt td \<longrightarrow>
            fst (submitPairingToken e w t) =
              \<lparr>success = False, message = Some ''This pairing code has already been used.''\<rparr>)"
proof -
  have b: "fst (submitPairingToken e w t) =
              \<lparr>success = False, message = Some ''This pairing code has already been used.''\<rparr>"
    if c: "completes e w t" and "currentTime e \<le> expiresAt td"
  proof -
    from submitBody_completes[OF c] obtain w2 d where
      "pairing w2 = pairing w" and
      "submitBody e w t = (case pairing w2 t of
          None \<Rightarrow>
            (Inr (failure ''Invalid code: Token not found. Please regenerate the QR code.''), w2)
        | Some td \<Rightarrow>
            if currentTime e > expiresAt td then
              (Inr (failure ''Pairing code has expired. Please regenerate the QR code.''), w2)
            else if used td then
              (Inr (failure ''This pairing code has already been used.''), w2)
            else
              (case update_err e of
                 Some err \<Rightarrow> (Inl err, w2)
               | None \<Rightarrow>
                   (let w3 = w2\<lparr>pairing := (pairing w2)(t \<mapsto>
                              td\<lparr>used := True, mobileId := Some d,
                                 usedAt := Some (currentTime e)\<rparr>)\<rparr>
                    in case registerDevice e (desktopId td) w3 of
                         (Inl err, w4) \<Rightarrow> (Inl err, w4)
                       | (Inr u4, w4) \<Rightarrow>
                           (case saveDeviceConfig e d (Some (desktopId td)) w4 of
                              (Inl err, w5) \<Rightarrow> (Inl err, w5)
                            | (Inr u5, w5) \<Rightarrow>
                                (Inr \<lparr>success = True, message = None\<rparr>, w5)))))"
      by blast
    then have "submitBody e w t =
                 (Inr (failure ''This pairing code has already been used.''), w2)"
      using assms that(2) by simp
    then show ?thesis by (simp add: submitPairingToken_def failure_def)
  qed
  from used_pairing_unchanged[OF assms, of e] b show ?thesis by blast
qed

theorem used_token_rejected_witness:
  "pairing world_abc ''pair_spent'' =
     Some (token_abc\<lparr>used := True, mobileId := Some ''mobile_1''\<rparr>) \<and>
   used (token_abc\<lparr>used := True, mobileId := Some ''mobile_1''\<rparr>) \<and>
   completes quiet world_abc ''pair_spent'' \<and>
   currentTime quiet \<le> expiresAt (token_abc\<lparr>used := True, mobileId := Some ''mobile_1''\<rparr>) \<and>
   \<not> success (fst (submitPairingToken quiet world_abc ''pair_spent'')) \<and>
   pairing (snd (submitPairingToken quiet world_abc ''pair_spent'')) = pairing world_abc \<and>
   fst (submitPairingToken quiet world_abc ''pair_spent'') =
     \<lparr>success = False, message = Some ''This pairing code has already been used.''\<rparr>"
proof -
  have h: "pairing world_abc ''pair_spent'' =
             Some (token_abc\<lparr>used := True, mobileId := Some ''mobile_1''\<rparr>)"
    "used (token_abc\<lparr>used := True, mobileId := Some ''mobile_1''\<rparr>)"
    by (simp_all add: concrete_defs)
  have g: "completes quiet world_abc ''pair_spent''"
    "currentTime quiet \<le> expiresAt (token_abc\<lparr>used := True, mobileId := Some ''mobile_1''\<rparr>)"
    by (simp_all add: concrete_defs eval_defs)
  from used_token_rejected[OF h, of quiet] h g show ?thesis by blast
qed

text \<open>
  The claim as it is written fails for a used token that has also expired: the call, in
  which nothing throws, returns the message of the expired code, not the one of the used
  code.
\<close>

theorem used_token_expired_counterexample:
  "pairing world_abc ''pair_spent_stale'' = Some (token_abc\<lparr>expiresAt := 1100, used := True\<rparr>) \<and>
   used (token_abc\<lparr>expiresAt := 1100, used := True\<rparr>) \<and>
   completes quiet world_abc ''pair_spent_stale'' \<and>
   fst (submitPairingToken quiet world_abc ''pair_spent_stale'') =
     \<lparr>success = False,
      message = Some ''Pairing code has expired. Please regenerate the QR code.''\<rparr> \<and>
   fst (submitPairingToken quiet world_abc ''pair_spent_stale'') \<noteq>
     \<lparr>success = False, message = Some ''This pairing code has already been used.''\<rparr>"
  by (simp add: concrete_defs eval_defs)



text \<open>
  Claim C8. Whatever is thrown inside \<^verbatim>\<open>submitPairingToken\<close> comes back as the structured
  result \<^verbatim>\<open>{success: false, message}\<close>, the shape of the failures for a missing or a used
  token, with the message \<^verbatim>\<open>Pairing error:\<close> followed by the message of the error; the call
  itself never throws. In particular: a call never reports success when the store throws on
  the read of the token, on the write that marks it used or on the write of the device
  record; when the store denies the write that marks a readable, unexpired and unused token
  as used, the result is that failure and the token record stays as it was; and a failing
  read or a failing registration gives that failure too.
\<close>

theorem exceptions_become_failures:
  "(fst (submitBody e w t) = Inl x \<longrightarrow>
      fst (submitPairingToken e w t) =
        \<lparr>success = False, message = Some (''Pairing error: '' @ x)\<rparr>) \<and>
   (get_err e \<noteq> None \<or> update_err e \<noteq> None \<or> set_err e \<noteq> None \<longrightarrow>
      \<not> success (fst (submitPairingToken e w t)) \<and>
      message (fst (submitPairingToken e w t)) \<noteq> None) \<and>
   (store_available e \<and> pairing w t = Some td \<and> \<not> used td \<and>
    currentTime e \<le> expiresAt td \<and> update_err e = Some x \<longrightarrow>
      fst (submitPairingToken e w t) =
        \<lparr>success = False, message = Some (''Pairing error: '' @ x)\<rparr> \<and>
      pairing (snd (submitPairingToken e w t)) = pairing w) \<and>
   (store_available e \<and> pairing w t = Some td \<and> \<not> used td \<and>
    currentTime e \<le> expiresAt td \<and> update_err e = None \<and> set_err e = Some x \<longrightarrow>
      fst (submitPairingToken e w t) =
        \<lparr>success = False, message = Some (''Pairing error: '' @ x)\<rparr>) \<and>
   (storage_set_err e = None \<and> signin_err e = None \<and> db_err e = None \<and>
    get_err e = Some x \<longrightarrow>
      fst (submitPairingToken e w t) =
        \<lparr>success = False, message = Some (''Pairing error: '' @ x)\<rparr>)"
proof -
  have a: "fst (submitPairingToken e w t) =
             \<lparr>success = False, message = Some (''Pairing error: '' @ x)\<rparr>"
    if "fst (submitBody e w t) = Inl x"
    using that by (cases "submitBody e w t") (simp add: submitPairingToken_def failure_def)
  have b: "\<not> success (fst (submitPairingToken e w t)) \<and>
           message (fst (submitPairingToken e w t)) \<noteq> None"
    if "get_err e \<noteq> None \<or> update_err e \<noteq> None \<or> set_err e \<noteq> None"
  proof -
    have "\<not> success (fst (submitPairingToken e w t))"
      using that get_err_no_success[of e _ w t] update_err_no_success[of e _ w t]
        set_err_no_success[of e _ w t]
      by auto
    then show ?thesis using submit_total[of e w t] by blast
  qed
  have c: "fst (submitPairingToken e w t) =
             \<lparr>success = False, message = Some (''Pairing error: '' @ x)\<rparr> \<and>
           pairing (snd (submitPairingToken e w t)) = pairing w"
    if "store_available e" "pairing w t = Some td" "\<not> used td"
      "currentTime e \<le> expiresAt td" "update_err e = Some x"
  proof -
    from submit_fresh_token[OF that(1-4)] that(5) obtain w2 where
      "pairing w2 = pairing w" "submitBody e w t = (Inl x, w2)"
      by auto
    then show ?thesis by (simp add: submitPairingToken_def failure_def)
  qed
  have d: "fst (submitPairingToken e w t) =
             \<lparr>success = False, message = Some (''Pairing error: '' @ x)\<rparr>"
    if "store_available e" "pairing w t = Some td" "\<not> used td"
      "currentTime e \<le> expiresAt td" "update_err e = None" "set_err e = Some x"
  proof -
    from submit_fresh_token[OF that(1-4)] that(5) obtain w2 d where
      w2: "pm_deviceId w2 = Some d" "d \<noteq> []" "pm_database w2" and
      body: "submitBody e w t =
        (let w3 = w2\<lparr>pairing := (pairing w2)(t \<mapsto>
                     td\<lparr>used := True, mobileId := Some d, usedAt := Some (currentTime e)\<rparr>)\<rparr>
         in case registerDevice e (desktopId td) w3 of
              (Inl err, w4) \<Rightarrow> (Inl err, w4)
            | (Inr u4, w4) \<Rightarrow>
                (case saveDeviceConfig e d (Some (desktopId td)) w4 of
                   (Inl err, w5) \<Rightarrow> (Inl err, w5)
                 | (Inr u5, w5) \<Rightarrow> (Inr \<lparr>success = True, message = None\<rparr>, w5)))"
      by auto
    define w3 where "w3 = w2\<lparr>pairing := (pairing w2)(t \<mapsto>
                     td\<lparr>used := True, mobileId := Some d, usedAt := Some (currentTime e)\<rparr>)\<rparr>"
    have "registerDevice e (desktopId td) w3 = (Inl x, w3)"
      using w2 that(6) by (simp add: registerDevice_def ensureDatabase_def w3_def)
    then have "submitBody e w t = (Inl x, w3)"
      using body by (simp add: w3_def[symmetric])
    then show ?thesis by (simp add: submitPairingToken_def failure_def)
  qed
  have f: "fst (submitPairingToken e w t) =
             \<lparr>success = False, message = Some (''Pairing error: '' @ x)\<rparr>"
    if "storage_set_err e = None" "signin_err e = None" "db_err e = None" "get_err e = Some x"
  proof -
    from ensureDeviceId_ok[OF that(1-3), of w] obtain w1 d where
      1: "ensureDeviceId e w = (Inr (), w1)" "pm_deviceId w1 = Some d" "d \<noteq> []"
      by blast
    have 2: "ensureDatabase e w1 = (Inr (), w1\<lparr>pm_database := True\<rparr>)"
      using that(3) by (rule ensureDatabase_ok)
    show ?thesis using 1 2 that(4)
      by (simp add: submitPairingToken_def submitBody_def failure_def)
  qed
  from a b c d f show ?thesis by blast
qed

theorem exceptions_become_failures_witness:
  "fst (submitBody denied world_abc ''pair_abc123'') =
     Inl ''PERMISSION_DENIED: Permission denied'' \<and>
   update_err denied \<noteq> None \<and>
   store_available denied \<and> pairing world_abc ''pair_abc123'' = Some token_abc \<and>
   \<not> used token_abc \<and> currentTime denied \<le> expiresAt token_abc \<and>
   \<not> success (fst (submitPairingToken denied world_abc ''pair_abc123'')) \<and>
   fst (submitPairingToken denied world_abc ''pair_abc123'') =
     \<lparr>success = False,
      message = Some ''Pairing error: PERMISSION_DENIED: Permission denied''\<rparr> \<and>
   pairing (snd (submitPairingToken denied world_abc ''pair_abc123'')) = pairing world_abc \<and>
   store_available unwritable \<and> update_err unwritable = None \<and>
   set_err unwritable = Some ''PERMISSION_DENIED: Permission denied'' \<and>
   fst (submitPairingToken unwritable world_abc ''pair_abc123'') =
     \<lparr>success = False,
      message = Some ''Pairing error: PERMISSION_DENIED: Permission denied''\<rparr> \<and>
   get_err unreadable = Some ''Error: Client is offline.'' \<and>
   fst (submitPairingToken unreadable world_abc ''pair_abc123'') =
     \<lparr>success = False, message = Some ''Pairing error: Error: Client is offline.''\<rparr>"
proof -
  have tok: "pairing world_abc ''pair_abc123'' = Some token_abc" "\<not> used token_abc"
    by (simp_all add: concrete_defs)
  have den: "store_available denied" "currentTime denied \<le> expiresAt token_abc"
    "update_err denied = Some ''PERMISSION_DENIED: Permission denied''"
    by (simp_all add: store_available_def concrete_defs currentTime_def)
  have unw: "store_available unwritable" "currentTime unwritable \<le> expiresAt token_abc"
    "update_err unwritable = None"
    "set_err unwritable = Some ''PERMISSION_DENIED: Permission denied''"
    by (simp_all add: store_available_def concrete_defs currentTime_def)
  have unr: "storage_set_err unreadable = None" "signin_err unreadable = None"
    "db_err unreadable = None" "get_err unreadable = Some ''Error: Client is offline.''"
    by (simp_all add: concrete_defs)
  have body: "fst (submitBody denied world_abc ''pair_abc123'') =
     Inl ''PERMISSION_DENIED: Permission denied''"
    by (simp add: concrete_defs eval_defs)
  note t1 = exceptions_become_failures[of denied world_abc "''pair_abc123''"
      "''PERMISSION_DENIED: Permission denied''" token_abc]
  note t2 = exceptions_become_failures[of unwritable world_abc "''pair_abc123''"
      "''PERMISSION_DENIED: Permission denied''" token_abc]
  note t3 = exceptions_become_failures[of unreadable world_abc "''pair_abc123''"
      "''Error: Client is offline.''" token_abc]
  have r1: "fst (submitPairingToken denied world_abc ''pair_abc123'') =
     \<lparr>success = False,
      message = Some ''Pairing error: PERMISSION_DENIED: Permission denied''\<rparr> \<and>
     pairing (snd (submitPairingToken denied world_abc ''pair_abc123'')) = pairing world_abc"
    using t1 tok den by simp
  have r2: "fst (submitPairingToken unwritable world_abc ''pair_abc123'') =
     \<lparr>success = False,
      message = Some ''Pairing error: PERMISSION_DENIED: Permission denied''\<rparr>"
    using t2 tok unw by simp
  have r3: "fst (submitPairingToken unreadable world_abc ''pair_abc123'') =
     \<lparr>success = False, message = Some ''Pairing error: Error: Client is offline.''\<rparr>"
    using t3 unr by simp
  from r1 r2 r3 body tok den unw unr show ?thesis by simp
qed




text \<open>
  Claim C10. \<^verbatim>\<open>isPaired()\<close> and \<^verbatim>\<open>getPairedDesktopId()\<close> never throw: whatever their bodies
  throw is caught, and the calls return \<^verbatim>\<open>false\<close> and \<^verbatim>\<open>null\<close>. For every state and every
  environment, when the read of the store throws, when the initialization throws, or when
  the store has no record for the device, \<^verbatim>\<open>isPaired()\<close> returns \<^verbatim>\<open>false\<close> and
  \<^verbatim>\<open>getPairedDesktopId()\<close> returns \<^verbatim>\<open>null\<close>.
\<close>

theorem status_queries_never_throw:
  "(fst (isPairedBody e w) = Inl x \<longrightarrow> fst (isPaired e w) = False) \<and>
   (fst (getPairedDesktopIdBody e w) = Inl x \<longrightarrow> fst (getPairedDesktopId e w) = None) \<and>
   (get_err e \<noteq> None \<or> initialization_throws e w \<or> device_record_absent e w \<longrightarrow>
      fst (isPaired e w) = False \<and> fst (getPairedDesktopId e w) = None)"
proof -
  obtain r1 w1 where 1: "ensureDeviceId e w = (r1, w1)" by (cases "ensureDeviceId e w")
  then have d1: "devices w1 = devices w" using ensureDeviceId_devices[of e w] by simp
  obtain r2 w2 where 2: "ensureDatabase e w1 = (r2, w2)" by (cases "ensureDatabase e w1")
  then have d2: "devices w2 = devices w" "pm_deviceId w2 = pm_deviceId w1"
    using ensureDatabase_devices[of e w1] ensureDatabase_deviceId[of e w1] d1 by simp_all
  have a: "fst (isPairedBody e w) = Inl x \<longrightarrow> fst (isPaired e w) = False"
    by (simp add: isPaired_def split: prod.splits sum.splits)
  have b: "fst (getPairedDesktopIdBody e w) = Inl x \<longrightarrow> fst (getPairedDesktopId e w) = None"
    by (simp add: getPairedDesktopId_def split: prod.splits sum.splits)
  have c: "fst (isPaired e w) = False \<and> fst (getPairedDesktopId e w) = None"
    if "get_err e \<noteq> None \<or> initialization_throws e w \<or> device_record_absent e w"
    using that 1 2 d1 d2
    by (auto simp add: isPaired_def isPairedBody_def getPairedDesktopId_def
        getPairedDesktopIdBody_def initialization_throws_def device_record_absent_def
        split: sum.splits option.splits)
  from a b c show ?thesis by blast
qed

theorem status_queries_never_throw_witness:
  "fst (isPairedBody unreadable world_abc) = Inl ''Error: Client is offline.'' \<and>
   fst (getPairedDesktopIdBody unreadable world_abc) = Inl ''Error: Client is offline.'' \<and>
   get_err unreadable \<noteq> None \<and>
   fst (isPaired unreadable world_abc) = False \<and>
   fst (getPairedDesktopId unreadable world_abc) = None \<and>
   initialization_throws unconfigured world_abc \<and>
   fst (isPaired unconfigured world_abc) = False \<and>
   fst (getPairedDesktopId unconfigured world_abc) = None \<and>
   device_record_absent quiet world_abc \<and>
   fst (isPaired quiet world_abc) = False \<and>
   fst (getPairedDesktopId quiet world_abc) = None"
proof -
  have h: "fst (isPairedBody unreadable world_abc) = Inl ''Error: Client is offline.''"
    "fst (getPairedDesktopIdBody unreadable world_abc) = Inl ''Error: Client is offline.''"
    "get_err unreadable \<noteq> None"
    "initialization_throws unconfigured world_abc"
    "device_record_absent quiet world_abc"
    by (simp_all add: concrete_defs eval_defs initialization_throws_def
        device_record_absent_def)
  from h status_queries_never_throw[of unreadable world_abc "''Error: Client is offline.''"]
    status_queries_never_throw[of unconfigured world_abc "[]"]
    status_queries_never_throw[of quiet world_abc "[]"]
  show ?thesis by simp
qed

section \<open>Properties of the FirebaseService\<close>

subsection \<open>The reconnect timer\<close>















subsection \<open>Commands\<close>

text \<open>
  Claim C7, as amended. \<^verbatim>\<open>sendCommand(text)\<close> called while no counterpart is paired fails with
  the error \<open>NotPaired\<close>, and called while a counterpart is paired but the service is not
  connected it fails with the error \<open>NotConnected\<close>. In both cases the state after the call
  is the state before it: nothing is written to the store, no message is appended to the
  inbox of the counterpart, and the command is not queued.
\<close>

theorem sendCommand_preconditions:
  "(falsy (pairedDesktopId s) \<longrightarrow>
      sendCommand key now err commandText s = (Inl NotPaired, s)) \<and>
   (\<not> falsy (pairedDesktopId s) \<and> \<not> isConnected s \<longrightarrow>
      sendCommand key now err commandText s = (Inl NotConnected, s))"
  by (simp add: sendCommand_def falsy_def split: option.splits)

theorem sendCommand_preconditions_witness:
  "falsy (pairedDesktopId phone) \<and>
   sendCommand ''-N1'' 1200000 None ''open notepad'' phone = (Inl NotPaired, phone) \<and>
   \<not> falsy (pairedDesktopId (phone\<lparr>pairedDesktopId := Some ''desktop_1''\<rparr>)) \<and>
   \<not> isConnected (phone\<lparr>pairedDesktopId := Some ''desktop_1''\<rparr>) \<and>
   sendCommand ''-N1'' 1200000 None ''open notepad''
       (phone\<lparr>pairedDesktopId := Some ''desktop_1''\<rparr>) =
     (Inl NotConnected, phone\<lparr>pairedDesktopId := Some ''desktop_1''\<rparr>)"
proof -
  have h: "falsy (pairedDesktopId phone)"
    "\<not> falsy (pairedDesktopId (phone\<lparr>pairedDesktopId := Some ''desktop_1''\<rparr>))"
    "\<not> isConnected (phone\<lparr>pairedDesktopId := Some ''desktop_1''\<rparr>)"
    by (simp_all add: phone_def falsy_def)
  from h sendCommand_preconditions[of phone "''-N1''" 1200000 None "''open notepad''"]
    sendCommand_preconditions[of "phone\<lparr>pairedDesktopId := Some ''desktop_1''\<rparr>"
      "''-N1''" 1200000 None "''open notepad''"]
  show ?thesis by simp
qed

text \<open>
  The claim as it is written fails for a service that is neither paired nor connected: the
  call is made while not connected, and the error is \<open>NotPaired\<close>, since the pairing is
  tested first.
\<close>

theorem sendCommand_unpaired_offline_counterexample:
  "\<not> isConnected phone \<and>
   fst (sendCommand ''-N1'' 1200000 None ''open notepad'' phone) = Inl NotPaired \<and>
   fst (sendCommand ''-N1'' 1200000 None ''open notepad'' phone) \<noteq> Inl NotConnected"
  by (simp add: sendCommand_def phone_def)

subsection \<open>The status listener\<close>

text \<open>On a snapshot with distinct keys the loop delivers the entries that are not yet processed.\<close>

lemma processKeys_distinct:
  assumes "distinct (map fst xs)"
  shows "processKeys xs (st, b) =
     (st\<lparr>processedMessageIds := processedMessageIds st @
            map fst (filter (\<lambda>x. fst x \<notin> set (processedMessageIds st)) xs),
         delivered := delivered st @ filter (\<lambda>x. fst x \<notin> set (processedMessageIds st)) xs\<rparr>,
      b \<or> filter (\<lambda>x. fst x \<notin> set (processedMessageIds st)) xs \<noteq> [])"
  using assms
proof (induction xs arbitrary: st b)
  case Nil
  then show ?case by simp
next
  case (Cons x xs)
  have d: "distinct (map fst xs)" using Cons.prems by simp
  have nx: "fst y \<noteq> fst x" if "y \<in> set xs" for y
  proof
    assume "fst y = fst x"
    then have "fst x \<in> set (map fst xs)" using that by (metis image_eqI set_map)
    then show False using Cons.prems by simp
  qed
  show ?case
  proof (cases "fst x \<in> set (processedMessageIds st)")
    case True
    then show ?thesis using Cons.IH[OF d, of st b] by simp
  next
    case False
    let ?st = "st\<lparr>processedMessageIds := processedMessageIds st @ [fst x],
                 delivered := delivered st @ [x]\<rparr>"
    have f: "filter (\<lambda>y. fst y \<noteq> fst x \<and> fst y \<notin> set (processedMessageIds st)) xs =
             filter (\<lambda>y. fst y \<notin> set (processedMessageIds st)) xs"
      using nx by (intro filter_cong) auto
    show ?thesis using False Cons.IH[OF d, of ?st True] by (simp add: f)
  qed
qed

lemma sortedKeys_set: "set (sortedKeys d) = set d"
  by (simp add: sortedKeys_def)

lemma sortedKeys_length: "length (sortedKeys d) = length d"
  by (simp add: sortedKeys_def)

lemma sortedKeys_distinct: "distinct (map fst d) \<Longrightarrow> distinct (map fst (sortedKeys d))"
  by (simp add: sortedKeys_def distinct_map)

lemma sortedKeys_sorted: "sorted (map (\<lambda>x. timestamp (snd x)) (sortedKeys d))"
  by (simp add: sortedKeys_def)

lemma onSnapshot_eq:
  assumes "distinct (map fst d)" "d \<noteq> []"
  shows "onSnapshot d st =
     st\<lparr>processedMessageIds := capIds (processedMessageIds st @ map fst (newMessages d st)),
        delivered := delivered st @ newMessages d st,
        removeCalls := removeCalls st @
          (if newMessages d st \<noteq> [] \<and> length d > 10
           then map fst (take (length d - 10) (sortedKeys d)) else [])\<rparr>"
  using assms processKeys_distinct[OF sortedKeys_distinct[OF assms(1)], of st False]
  by (simp add: onSnapshot_def Let_def newMessages_def capIds_def sortedKeys_length)






lemma removalsResolved_ids:
  "set (processedMessageIds (removalsResolved ks st)) = set (processedMessageIds st) - set ks"
  unfolding removalsResolved_def
  by (induction ks arbitrary: st) (auto simp: removeResolved_def)







text \<open>
  Claim C5. Let a snapshot of the status inbox (its keys distinct) hold more than 10 entries
  and let at least one new message be delivered from it. Then \<^verbatim>\<open>listenForStatus\<close> calls
  \<^verbatim>\<open>remove\<close> on the store for exactly the keys of \<^verbatim>\<open>oldKeys\<close>: all entries but 10, none of them
  among the 10 kept, and each of them with a timestamp that is at most the timestamp of
  every entry kept. Once the store has confirmed these removals, the removed ids, and only
  they, are gone from the set of processed ids.
\<close>

theorem pruning_removes_oldest:
  assumes "distinct (map fst statusData)" and "length statusData > 10"
    and "delivered (onSnapshot statusData st) \<noteq> delivered st"
  shows "removeCalls (onSnapshot statusData st) = removeCalls st @ oldKeys statusData \<and>
         length (keptEntries statusData) = 10 \<and>
         set (oldKeys statusData) \<union> fst ` set (keptEntries statusData) = fst ` set statusData \<and>
         set (oldKeys statusData) \<inter> fst ` set (keptEntries statusData) = {} \<and>
         (\<forall>x \<in> set (take (length statusData - 10) (sortedKeys statusData)).
            \<forall>y \<in> set (keptEntries statusData). timestamp (snd x) \<le> timestamp (snd y)) \<and>
         set (processedMessageIds
                (removalsResolved (oldKeys statusData) (onSnapshot statusData st))) =
           set (processedMessageIds (onSnapshot statusData st)) - set (oldKeys statusData)"
proof -
  let ?n = "length statusData - 10"
  let ?ks = "sortedKeys statusData"
  have ne: "statusData \<noteq> []" using assms(2) by auto
  have new: "newMessages statusData st \<noteq> []"
    using assms(3) onSnapshot_eq[OF assms(1) ne, of st] by auto
  have 1: "removeCalls (onSnapshot statusData st) = removeCalls st @ oldKeys statusData"
    using onSnapshot_eq[OF assms(1) ne, of st] new assms(2) by (simp add: oldKeys_def)
  have 2: "length (keptEntries statusData) = 10"
    using assms(2) by (simp add: keptEntries_def sortedKeys_length)
  have d: "distinct (map fst (take ?n ?ks @ drop ?n ?ks))"
    using sortedKeys_distinct[OF assms(1)] by simp
  have u: "set (take ?n ?ks) \<union> set (drop ?n ?ks) = set statusData"
    using set_append[of "take ?n ?ks" "drop ?n ?ks"] by (simp add: sortedKeys_set)
  have "set (oldKeys statusData) \<union> fst ` set (keptEntries statusData) =
        fst ` (set (take ?n ?ks) \<union> set (drop ?n ?ks))"
    by (simp add: oldKeys_def keptEntries_def image_Un)
  also have "\<dots> = fst ` set statusData" by (simp only: u)
  finally have 3: "set (oldKeys statusData) \<union> fst ` set (keptEntries statusData) =
                   fst ` set statusData" .
  have 4: "set (oldKeys statusData) \<inter> fst ` set (keptEntries statusData) = {}"
    using d unfolding map_append distinct_append by (simp add: oldKeys_def keptEntries_def)
  have "sorted (map (\<lambda>x. timestamp (snd x)) (take ?n ?ks @ drop ?n ?ks))"
    using sortedKeys_sorted[of statusData] by simp
  then have 5: "\<forall>x \<in> set (take ?n ?ks). \<forall>y \<in> set (keptEntries statusData).
                  timestamp (snd x) \<le> timestamp (snd y)"
    unfolding map_append sorted_append by (auto simp: keptEntries_def)
  note 6 = removalsResolved_ids[of "oldKeys statusData" "onSnapshot statusData st"]
  show ?thesis
    apply (intro conjI)
         apply (rule 1)
        apply (rule 2)
       apply (rule 3)
      apply (rule 4)
     apply (rule 5)
    apply (rule 6)
    done
qed

theorem pruning_removes_oldest_witness:
  "distinct (map fst (inbox 12)) \<and> length (inbox 12) > 10 \<and>
   delivered (onSnapshot (inbox 12) newListener) \<noteq> delivered newListener \<and>
   oldKeys (inbox 12) = [''-00'', ''-01''] \<and>
   removeCalls (onSnapshot (inbox 12) newListener) = [''-00'', ''-01''] \<and>
   length (keptEntries (inbox 12)) = 10 \<and>
   set (processedMessageIds
          (removalsResolved (oldKeys (inbox 12)) (onSnapshot (inbox 12) newListener))) =
     set (processedMessageIds (onSnapshot (inbox 12) newListener)) - set (oldKeys (inbox 12))"
proof -
  have h1: "distinct (map fst (inbox 12))" by code_simp
  have h2: "length (inbox 12) > 10" by (simp add: inbox_def)
  have h3: "delivered (onSnapshot (inbox 12) newListener) \<noteq> delivered newListener"
    by code_simp
  have h4: "oldKeys (inbox 12) = [''-00'', ''-01'']" by code_simp
  have h5: "removeCalls newListener = []" by (simp add: newListener_def)
  from pruning_removes_oldest[OF h1 h2 h3] h1 h2 h3 h4 h5 show ?thesis by simp
qed

end
